theory Spec2Isabelle
  imports Main "HOL-Library.Sublist" "HOL-Library.Char_ord"
begin

section \<open>Strings\<close>

text \<open>
  Strings are lists of characters. An \<open>Error\<close> is represented by its message (the
  program only ever reads \<open>error.message\<close>, through \<open>toErrorMessage\<close>), a
  throwing computation returns \<open>Inl message\<close>, a returning one \<open>Inr value\<close>.

  \<open>toLowerCase\<close> is modelled on the letters \<open>A\<close> to \<open>Z\<close>; every other character is
  left as it is. \<open>trim\<close> removes the white space and line terminator characters
  of the character range from both ends.
\<close>

definition toLowerChar :: "char \<Rightarrow> char" where
  "toLowerChar c =
     (if CHR ''A'' \<le> c \<and> c \<le> CHR ''Z'' then char_of (of_char c + (32::nat)) else c)"

definition toLowerCase :: "string \<Rightarrow> string" where
  "toLowerCase s = map toLowerChar s"

definition isWhiteSpace :: "char \<Rightarrow> bool" where
  "isWhiteSpace c =
     (c \<in> set [CHR 0x09, CHR 0x0A, CHR 0x0B, CHR 0x0C, CHR 0x0D, CHR 0x20, CHR 0xA0])"

definition trim :: "string \<Rightarrow> string" where
  "trim s = rev (dropWhile isWhiteSpace (rev (dropWhile isWhiteSpace s)))"

text \<open>\<open>message.includes(pattern)\<close>: the pattern occurs at some position of the message.\<close>

primrec str_includes :: "string \<Rightarrow> string \<Rightarrow> bool" where
  "str_includes [] p = (p = [])"
| "str_includes (c # cs) p = (prefix p (c # cs) \<or> str_includes cs p)"

section \<open>The command line program\<close>

subsection \<open>Pure helpers\<close>

definition MISSING_BRANCH_PATTERNS :: "string list" where
  "MISSING_BRANCH_PATTERNS = [''invalid reference'', ''not a valid object name'']"

definition isMissingBranchError :: "string \<Rightarrow> bool" where
  "isMissingBranchError error =
     (let message = toLowerCase error
      in list_ex (\<lambda>pattern. str_includes message pattern) MISSING_BRANCH_PATTERNS)"

text \<open>
  \<open>url.match(/\/([^\/]+?)(\.git)?$/)\<close>. The search tries every start position from
  the left. At a start position the pattern needs a slash, then the lazy group: one
  character other than a slash, and one more each time the rest of the pattern
  (\<open>(\.git)?$\<close>: the remaining input is \<open>.git\<close> or empty) does not match.
  The result is the first capture group.
\<close>

definition gitSuffixAtEnd :: "string \<Rightarrow> bool" where
  "gitSuffixAtEnd rest = (rest = ''.git'' \<or> rest = [])"

fun lazySegment :: "string \<Rightarrow> string \<Rightarrow> string option" where
  "lazySegment acc [] = None"
| "lazySegment acc (c # cs) =
     (if c = CHR ''/'' then None
      else if gitSuffixAtEnd cs then Some (acc @ [c])
      else lazySegment (acc @ [c]) cs)"

fun matchAt :: "string \<Rightarrow> string option" where
  "matchAt [] = None"
| "matchAt (c # cs) = (if c = CHR ''/'' then lazySegment [] cs else None)"

fun repoNameMatch :: "string \<Rightarrow> string option" where
  "repoNameMatch [] = None"
| "repoNameMatch (c # cs) =
     (case matchAt (c # cs) of Some g \<Rightarrow> Some g | None \<Rightarrow> repoNameMatch cs)"

definition invalidUrlMessage :: string where
  "invalidUrlMessage = ''Invalid Git URL. Could not extract repository name.''"

definition resolveRepoName :: "string \<Rightarrow> string + string" where
  "resolveRepoName url =
     (case repoNameMatch url of
        None \<Rightarrow> Inl invalidUrlMessage
      | Some repoName \<Rightarrow> if repoName = [] then Inl invalidUrlMessage else Inr repoName)"

definition usageMessage :: string where
  "usageMessage = ''Usage: git-wt <repo-url> <branch-name> [options]''"

text \<open>
  \<open>resolveInputs\<close>: an argument that is \<open>undefined\<close> is \<open>None\<close>; \<open>cwd\<close> is
  \<open>process.cwd()\<close>. The result is the triple \<open>(url, branch, dir)\<close>.
\<close>

definition resolveInputs ::
  "string \<Rightarrow> string option \<Rightarrow> string option \<Rightarrow> string \<Rightarrow> string + (string \<times> string \<times> string)" where
  "resolveInputs cwd urlArg branchArg dirArg =
     (let url = map_option trim urlArg;
          branch = map_option trim branchArg;
          dir = (if trim dirArg = [] then cwd else trim dirArg)
      in case (url, branch) of
           (Some u, Some b) \<Rightarrow>
             if u = [] \<or> b = [] then Inl usageMessage else Inr (u, b, dir)
         | _ \<Rightarrow> Inl usageMessage)"

subsection \<open>The platform: file system, git and path library\<close>

text \<open>
  The program acts on the world through \<open>fs.ensureDir\<close>, \<open>fs.existsSync\<close> and three
  calls of the git library, and computes paths with \<open>path.join\<close> and
  \<open>path.resolve\<close>. None of these is part of the program, so they are parameters of the
  model: a platform over a state \<open>'s\<close> of the outside world. Performing an effect
  either succeeds (\<open>None\<close>) or throws an error with a message (\<open>Some message\<close>), and
  leaves a new state. The model records every effect the program requests.
  Creating a handle of the git library (\<open>simpleGit(...)\<close>) and driving the spinner
  are not effects of the model: the handle is taken to be created, and the spinner only
  displays.
\<close>

datatype effect =
    EnsureDir string
  | GitFetch string string
  | GitClone string string "string list"
  | GitRaw string "string list"

record 's platform =
  perform :: "effect \<Rightarrow> 's \<Rightarrow> string option \<times> 's"
  existsSync :: "'s \<Rightarrow> string \<Rightarrow> bool"
  path_join :: "string \<Rightarrow> string \<Rightarrow> string"
  path_resolve :: "string \<Rightarrow> string"
  process_cwd :: string

record 's world =
  outside :: 's
  issued :: "effect list"

definition request :: "'s platform \<Rightarrow> effect \<Rightarrow> 's world \<Rightarrow> string option \<times> 's world" where
  "request pf e w =
     (case perform pf e (outside w) of
        (r, s') \<Rightarrow> (r, \<lparr>outside = s', issued = issued w @ [e]\<rparr>))"

subsection \<open>Provisioning the bare repository and creating the worktree\<close>

definition ensureBareRepository ::
  "'s platform \<Rightarrow> string \<Rightarrow> string \<Rightarrow> 's world \<Rightarrow> (string + unit) \<times> 's world" where
  "ensureBareRepository pf url bareRepoPath w =
     (if existsSync pf (outside w) bareRepoPath then
        (case request pf (GitFetch bareRepoPath ''origin'') w of
           (Some err, w') \<Rightarrow> (Inl err, w')
         | (None, w') \<Rightarrow> (Inr (), w'))
      else
        (case request pf (GitClone url bareRepoPath [''--bare'', ''--progress'']) w of
           (Some err, w') \<Rightarrow> (Inl err, w')
         | (None, w') \<Rightarrow> (Inr (), w')))"

definition pathExistsMessage :: "string \<Rightarrow> string" where
  "pathExistsMessage worktreePath = ''Worktree path '' @ worktreePath @ '' already exists.''"

definition worktreeAdd :: "string \<Rightarrow> string \<Rightarrow> string \<Rightarrow> effect" where
  "worktreeAdd bareRepoPath worktreePath branch =
     GitRaw bareRepoPath [''worktree'', ''add'', worktreePath, branch]"

definition worktreeAddNewBranch :: "string \<Rightarrow> string \<Rightarrow> string \<Rightarrow> effect" where
  "worktreeAddNewBranch bareRepoPath worktreePath branch =
     GitRaw bareRepoPath [''worktree'', ''add'', ''-b'', branch, worktreePath]"

definition createWorktree ::
  "'s platform \<Rightarrow> string \<Rightarrow> string \<Rightarrow> string \<Rightarrow> 's world \<Rightarrow> (string + unit) \<times> 's world" where
  "createWorktree pf bareRepoPath worktreePath branch w =
     (if existsSync pf (outside w) worktreePath then (Inl (pathExistsMessage worktreePath), w)
      else
        (case request pf (worktreeAdd bareRepoPath worktreePath branch) w of
           (None, w1) \<Rightarrow> (Inr (), w1)
         | (Some err, w1) \<Rightarrow>
             if \<not> isMissingBranchError err then (Inl err, w1)
             else
               (case request pf (worktreeAddNewBranch bareRepoPath worktreePath branch) w1 of
                  (None, w2) \<Rightarrow> (Inr (), w2)
                | (Some err2, w2) \<Rightarrow> (Inl err2, w2))))"

subsection \<open>The action of the command\<close>

text \<open>
  The outcome of one invocation: the exit code of the process (\<open>process.exitCode\<close> is
  set to 1 in the handler of the action, and is 0 otherwise) and the message given to
  \<open>spinner.fail\<close>, if any. For a command line that the command line library refuses,
  they are the exit code and the message of the library.
\<close>

record outcome =
  exitCode :: nat
  failure :: "string option"

definition failed :: "string \<Rightarrow> outcome" where
  "failed message = \<lparr>exitCode = 1, failure = Some message\<rparr>"

definition succeeded :: outcome where
  "succeeded = \<lparr>exitCode = 0, failure = None\<rparr>"

text \<open>
  The action computes \<open>baseDir\<close>, \<open>repoDir\<close>, \<open>bareRepoPath\<close> and \<open>worktreePath\<close>
  before its first effect; \<open>planLayout\<close> is that computation.
\<close>

record layout =
  repoDir :: string
  bareRepoPath :: string
  worktreePath :: string

definition planLayout :: "'s platform \<Rightarrow> string \<Rightarrow> string \<Rightarrow> string \<Rightarrow> layout" where
  "planLayout pf dir repoName branch =
     (let baseDir = path_resolve pf dir;
          repoDir = path_join pf baseDir repoName
      in \<lparr>repoDir = repoDir,
          bareRepoPath = path_join pf repoDir ''.bare'',
          worktreePath = path_join pf repoDir branch\<rparr>)"

definition action ::
  "'s platform \<Rightarrow> string option \<Rightarrow> string option \<Rightarrow> string \<Rightarrow> 's world \<Rightarrow> outcome \<times> 's world" where
  "action pf urlArg branchArg dirOption w =
     (case resolveInputs (process_cwd pf) urlArg branchArg dirOption of
        Inl err \<Rightarrow> (failed err, w)
      | Inr (url, branch, dir) \<Rightarrow>
          (case resolveRepoName url of
             Inl err \<Rightarrow> (failed err, w)
           | Inr repoName \<Rightarrow>
               (let l = planLayout pf dir repoName branch
                in case request pf (EnsureDir (repoDir l)) w of
                     (Some err, w1) \<Rightarrow> (failed err, w1)
                   | (None, w1) \<Rightarrow>
                       (case ensureBareRepository pf url (bareRepoPath l) w1 of
                          (Inl err, w2) \<Rightarrow> (failed err, w2)
                        | (Inr _, w2) \<Rightarrow>
                            (case createWorktree pf (bareRepoPath l) (worktreePath l) branch w2 of
                               (Inl err, w3) \<Rightarrow> (failed err, w3)
                             | (Inr _, w3) \<Rightarrow> (succeeded, w3))))))"

text \<open>
  \<open>run\<close> declares \<open><url>\<close> and \<open><branch>\<close> as required arguments and the option
  \<open>--dir\<close> with \<open>process.cwd()\<close> as its default, and hands the command line to the
  command line library. The library calls the action only when both arguments are on
  the command line; when one is not, it prints its own error for the first one that is
  missing and ends the process with exit code 1. An argument or option that is not on
  the command line is \<open>None\<close>. The banner, the options \<open>--version\<close> and \<open>--help\<close> of
  the library and positional arguments after the second are not part of the model.
\<close>

definition missingRequiredArgument :: "string \<Rightarrow> string" where
  "missingRequiredArgument name =
     ''error: missing required argument '' @ [CHR 0x27] @ name @ [CHR 0x27]"

definition run ::
  "'s platform \<Rightarrow> string option \<Rightarrow> string option \<Rightarrow> string option \<Rightarrow> 's world \<Rightarrow> outcome \<times> 's world" where
  "run pf urlArg branchArg dirOption w =
     (case urlArg of
        None \<Rightarrow> (failed (missingRequiredArgument ''url''), w)
      | Some u \<Rightarrow>
          (case branchArg of
             None \<Rightarrow> (failed (missingRequiredArgument ''branch''), w)
           | Some b \<Rightarrow>
               action pf (Some u) (Some b)
                 (case dirOption of None \<Rightarrow> process_cwd pf | Some d \<Rightarrow> d) w))"

subsection \<open>A small platform for running the model\<close>

text \<open>
  A simulated world in the manner of the test suite, which runs the program against a
  local remote repository: the state holds the paths that exist and the branches the
  repository knows. Adding a worktree for an unknown branch fails with git's message
  for it; everything else succeeds. Paths are joined with a slash.
\<close>

record sim =
  files :: "string list"
  branches :: "string list"

fun simRaw :: "string list \<Rightarrow> sim \<Rightarrow> string option \<times> sim" where
  "simRaw [a1, a2, a3, a4] s =
     (if a1 = ''worktree'' \<and> a2 = ''add'' then
        (if a4 \<in> set (branches s) then (None, s\<lparr>files := a3 # files s\<rparr>)
         else (Some (''fatal: invalid reference: '' @ a4), s))
      else (Some ''fatal: unknown command'', s))"
| "simRaw [a1, a2, a3, a4, a5] s =
     (if a1 = ''worktree'' \<and> a2 = ''add'' \<and> a3 = ''-b'' then
        (if a4 \<in> set (branches s) then
           (Some (''fatal: a branch named '' @ a4 @ '' already exists''), s)
         else (None, s\<lparr>files := a5 # files s, branches := a4 # branches s\<rparr>))
      else (Some ''fatal: unknown command'', s))"
| "simRaw args s = (Some ''fatal: unknown command'', s)"

fun simPerform :: "effect \<Rightarrow> sim \<Rightarrow> string option \<times> sim" where
  "simPerform (EnsureDir p) s = (None, s\<lparr>files := p # files s\<rparr>)"
| "simPerform (GitFetch dir remote) s = (None, s)"
| "simPerform (GitClone url dest opts) s = (None, s\<lparr>files := dest # files s\<rparr>)"
| "simPerform (GitRaw dir args) s = simRaw args s"

definition simPlatform :: "sim platform" where
  "simPlatform =
     \<lparr>perform = simPerform,
      existsSync = (\<lambda>s p. p \<in> set (files s)),
      path_join = (\<lambda>a b. a @ ''/'' @ b),
      path_resolve = (\<lambda>d. d),
      process_cwd = ''/work''\<rparr>"

definition simWorld :: "string list \<Rightarrow> string list \<Rightarrow> sim world" where
  "simWorld fs bs = \<lparr>outside = \<lparr>files = fs, branches = bs\<rparr>, issued = []\<rparr>"

section \<open>The full-screen form\<close>

text \<open>
  \<open>collectInputsWithTui\<close> builds a form of three text boxes and two buttons and returns
  a promise. The model keeps what the handlers read and write: the values of the text
  boxes, \<open>focusIndex\<close>, \<open>settled\<close>, the content of the message box and the state of
  the promise, and records the calls on the screen and on the promise in the order in
  which the handlers make them.
\<close>

datatype settlement = Pending | Resolved string string string | Rejected string

datatype call =
    Render
  | Focus nat
  | SetContent string
  | Destroy
  | CallResolve string string string
  | CallReject string

record form =
  urlValue :: string
  branchValue :: string
  dirValue :: string
  focusIndex :: int
  settled :: bool
  messageContent :: string
  promise :: settlement
  calls :: "call list"

text \<open>The remainder of JavaScript takes the sign of the dividend.\<close>

definition jsRemainder :: "int \<Rightarrow> int \<Rightarrow> int" where
  "jsRemainder a b = sgn a * (\<bar>a\<bar> mod \<bar>b\<bar>)"

definition focusablesLength :: int where
  "focusablesLength = 5"

text \<open>
  \<open>focusAt\<close>: the first three focusables are the text boxes, whose \<open>focus\<close> handler
  renders the screen once more.
\<close>

definition focusAt :: "int \<Rightarrow> form \<Rightarrow> form" where
  "focusAt index f =
     (let normalized = jsRemainder (index + focusablesLength) focusablesLength
      in if normalized < 0 \<or> focusablesLength \<le> normalized then f
         else f\<lparr>focusIndex := normalized,
                calls := calls f @ [Focus (nat normalized)]
                           @ (if normalized < 3 then [Render] else []) @ [Render]\<rparr>)"

definition setError :: "string \<Rightarrow> form \<Rightarrow> form" where
  "setError content f =
     f\<lparr>messageContent := ''{red-fg}'' @ content @ ''{/red-fg}'',
       calls := calls f @ [SetContent (''{red-fg}'' @ content @ ''{/red-fg}''), Render]\<rparr>"

definition cleanup :: "form \<Rightarrow> form" where
  "cleanup f = f\<lparr>calls := calls f @ [Destroy]\<rparr>"

definition settle :: "(form \<Rightarrow> form) \<Rightarrow> form \<Rightarrow> form" where
  "settle handler f = (if settled f then f else handler (cleanup (f\<lparr>settled := True\<rparr>)))"

text \<open>A promise takes its first settlement only.\<close>

definition reject :: "string \<Rightarrow> form \<Rightarrow> form" where
  "reject message f =
     f\<lparr>promise := (if promise f = Pending then Rejected message else promise f),
       calls := calls f @ [CallReject message]\<rparr>"

definition resolve :: "string \<Rightarrow> string \<Rightarrow> string \<Rightarrow> form \<Rightarrow> form" where
  "resolve url branch dir f =
     f\<lparr>promise := (if promise f = Pending then Resolved url branch dir else promise f),
       calls := calls f @ [CallResolve url branch dir]\<rparr>"

definition cancel :: "form \<Rightarrow> form" where
  "cancel f = settle (reject ''Cancelled by user.'') f"

definition submit :: "form \<Rightarrow> form" where
  "submit f =
     (let url = trim (urlValue f);
          branch = trim (branchValue f);
          dir = trim (dirValue f)
      in if url = [] then focusAt 0 (setError ''Repository URL is required.'' f)
         else if branch = [] then focusAt 1 (setError ''Branch is required.'' f)
         else if dir = [] then focusAt 2 (setError ''Base directory is required.'' f)
         else settle (resolve url branch dir) f)"

text \<open>
  The runs of the handlers the form registers, and the edits of the three text boxes
  (which the widget library makes, and which change what \<open>getValue\<close> returns).
  An event is a handler that runs, not a key that is pressed: \<open>ScreenEscape\<close> is a run
  of the handler that \<open>screen.key\<close> binds to Escape, \<open>UrlEnter\<close> a run of the handler
  that the url box binds to Enter, \<open>PressCancel\<close> a run of the \<open>press\<close> handler of the
  Cancel button. Which handler a key press reaches, if any, is decided by the widget
  library; \<open>pressKey\<close> below models that for the keys that cancel.
\<close>

datatype event =
    ScreenTab | ScreenShiftTab | ScreenEscape | ScreenQ | ScreenCtrlC | ScreenCtrlS
  | UrlEnter | BranchEnter | DirEnter
  | PressSubmit | PressCancel | FormSubmit
  | EditUrl string | EditBranch string | EditDir string

fun handle :: "event \<Rightarrow> form \<Rightarrow> form" where
  "handle ScreenTab f = focusAt (focusIndex f + 1) f"
| "handle ScreenShiftTab f = focusAt (focusIndex f - 1) f"
| "handle ScreenEscape f = cancel f"
| "handle ScreenQ f = cancel f"
| "handle ScreenCtrlC f = cancel f"
| "handle ScreenCtrlS f = submit f"
| "handle UrlEnter f = focusAt 1 f"
| "handle BranchEnter f = focusAt 2 f"
| "handle DirEnter f = submit f"
| "handle PressSubmit f = submit f"
| "handle PressCancel f = cancel f"
| "handle FormSubmit f = submit f"
| "handle (EditUrl v) f = f\<lparr>urlValue := v\<rparr>"
| "handle (EditBranch v) f = f\<lparr>branchValue := v\<rparr>"
| "handle (EditDir v) f = f\<lparr>dirValue := v\<rparr>"

fun handleAll :: "event list \<Rightarrow> form \<Rightarrow> form" where
  "handleAll [] f = f"
| "handleAll (e # es) f = handleAll es (handle e f)"

definition toInitialValue :: "string option \<Rightarrow> string" where
  "toInitialValue v = (case v of None \<Rightarrow> [] | Some x \<Rightarrow> trim x)"

text \<open>The hint the message box starts with (its separators are written as commas here).\<close>

definition initialMessage :: string where
  "initialMessage =
     ''{gray-fg}Tab/Shift+Tab switch focus, Enter submit, Esc cancel{/gray-fg}''"

text \<open>
  The form as \<open>collectInputsWithTui\<close> leaves it when it returns the promise:
  \<open>initial.dir || process.cwd()\<close> takes the working directory for a directory that is
  missing or empty, and the last statement focuses the first text box.
\<close>

definition collectInputsWithTui ::
  "string \<Rightarrow> string option \<Rightarrow> string option \<Rightarrow> string option \<Rightarrow> form" where
  "collectInputsWithTui cwd initialUrl initialBranch initialDir =
     focusAt 0
       \<lparr>urlValue = toInitialValue initialUrl,
        branchValue = toInitialValue initialBranch,
        dirValue = toInitialValue
          (case initialDir of None \<Rightarrow> Some cwd
           | Some d \<Rightarrow> if d = [] then Some cwd else Some d),
        focusIndex = 0,
        settled = False,
        messageContent = initialMessage,
        promise = Pending,
        calls = []\<rparr>"

subsection \<open>Key presses\<close>

text \<open>
  The three text boxes are built with \<open>inputOnFocus\<close>: a text box reads input from the
  moment it is focused. While a text box reads input the widget library gives every
  key press to that text box and runs none of the handlers bound with \<open>screen.key\<close>.
  The text box appends a printable character to its value and renders the screen,
  drops a control character, and ends its reading on Escape. Only when no text box
  reads input does a key press run the handler the screen has for it.

  \<open>collectInputsWithTui\<close> ends with \<open>focusAt(0)\<close>, so the form opens with the url box
  reading input. The terminal below is the form together with that fact, for a user
  who presses the keys that \<open>screen.key\<close> binds to \<open>cancel\<close>.
\<close>

datatype key = Escape | LetterQ | CtrlC

record terminal =
  shown :: form
  reading :: bool

definition openTerminal ::
  "string \<Rightarrow> string option \<Rightarrow> string option \<Rightarrow> string option \<Rightarrow> terminal" where
  "openTerminal cwd initialUrl initialBranch initialDir =
     \<lparr>shown = collectInputsWithTui cwd initialUrl initialBranch initialDir, reading = True\<rparr>"

definition typeCharacter :: "char \<Rightarrow> form \<Rightarrow> form" where
  "typeCharacter c f =
     (if focusIndex f = 0 then f\<lparr>urlValue := urlValue f @ [c], calls := calls f @ [Render]\<rparr>
      else if focusIndex f = 1 then f\<lparr>branchValue := branchValue f @ [c], calls := calls f @ [Render]\<rparr>
      else if focusIndex f = 2 then f\<lparr>dirValue := dirValue f @ [c], calls := calls f @ [Render]\<rparr>
      else f)"

definition screenHandler :: "key \<Rightarrow> event" where
  "screenHandler k = (case k of Escape \<Rightarrow> ScreenEscape | LetterQ \<Rightarrow> ScreenQ | CtrlC \<Rightarrow> ScreenCtrlC)"

definition pressKey :: "key \<Rightarrow> terminal \<Rightarrow> terminal" where
  "pressKey k t =
     (if reading t then
        (case k of
           Escape \<Rightarrow> t\<lparr>reading := False\<rparr>
         | LetterQ \<Rightarrow> t\<lparr>shown := typeCharacter CHR ''q'' (shown t)\<rparr>
         | CtrlC \<Rightarrow> t)
      else t\<lparr>shown := handle (screenHandler k) (shown t)\<rparr>)"

definition isSettlingCall :: "call \<Rightarrow> bool" where
  "isSettlingCall c = (case c of CallResolve u b d \<Rightarrow> True | CallReject m \<Rightarrow> True | _ \<Rightarrow> False)"

subsection \<open>Notions of the specification\<close>

text \<open>
  A case-insensitive substring match, as the specification words it: some part of the
  message equals the phrase when the case of the letters is ignored.
\<close>

definition containsIgnoringCase :: "string \<Rightarrow> string \<Rightarrow> bool" where
  "containsIgnoringCase message phrase =
     (\<exists>part. sublist part message \<and> toLowerCase part = toLowerCase phrase)"

text \<open>
  The repository name the specification describes: the last path segment without one
  trailing \<open>.git\<close>, where a segment that is \<open>.git\<close> alone has nothing to strip.
\<close>

definition stripGitSuffix :: "string \<Rightarrow> string" where
  "stripGitSuffix segment =
     (if 4 < length segment \<and> drop (length segment - 4) segment = ''.git''
      then take (length segment - 4) segment else segment)"

text \<open>The effects of the Repository Provisioner proper: the fetch and the clone.\<close>

definition isProvisioning :: "effect \<Rightarrow> bool" where
  "isProvisioning e =
     (case e of GitFetch dir remote \<Rightarrow> True | GitClone url dest opts \<Rightarrow> True | _ \<Rightarrow> False)"

text \<open>
  The invariant of the form: \<open>settled\<close> is set exactly when the promise is no longer
  pending, the promise has been called exactly once if so and never otherwise, and a
  resolved promise holds three trimmed, non-empty values.
\<close>

definition consistent :: "form \<Rightarrow> bool" where
  "consistent f =
     ((settled f \<longleftrightarrow> promise f \<noteq> Pending)
      \<and> length (filter isSettlingCall (calls f)) = (if settled f then 1 else 0)
      \<and> (case promise f of
            Resolved u b d \<Rightarrow>
              u \<noteq> [] \<and> b \<noteq> [] \<and> d \<noteq> [] \<and> trim u = u \<and> trim b = b \<and> trim d = d
          | _ \<Rightarrow> True))"

section \<open>Properties\<close>

subsection \<open>Strings\<close>

lemma str_includes_sublist: "str_includes m p = sublist p m"
  by (induction m) (auto simp: sublist_Cons_right)

lemma sublist_map_iff: "sublist p (map f m) \<longleftrightarrow> (\<exists>u. sublist u m \<and> map f u = p)"
proof
  assume "sublist p (map f m)"
  then obtain ps ss where "map f m = ps @ (p @ ss)" by (auto simp: sublist_def)
  from this [unfolded map_eq_append_conv]
  obtain a r where ar: "m = a @ r" "p @ ss = map f r" by blast
  from ar(2) [symmetric, unfolded map_eq_append_conv]
  obtain b c where bc: "r = b @ c" "p = map f b" by blast
  from ar(1) bc(1) have "sublist b m" unfolding sublist_def by blast
  with bc(2) show "\<exists>u. sublist u m \<and> map f u = p" by blast
next
  assume "\<exists>u. sublist u m \<and> map f u = p"
  then show "sublist p (map f m)" using map_mono_sublist by blast
qed

lemma containsIgnoringCase_code:
  "containsIgnoringCase m p = str_includes (toLowerCase m) (toLowerCase p)"
  by (simp add: containsIgnoringCase_def str_includes_sublist toLowerCase_def sublist_map_iff)



subsection \<open>Worktree creation\<close>




subsection \<open>The repository name\<close>

lemma stripGitSuffix_append:
  "name \<noteq> [] \<Longrightarrow> stripGitSuffix (name @ ''.git'') = name"
  by (simp add: stripGitSuffix_def)

lemma stripGitSuffix_same:
  "\<not> (\<exists>n. n \<noteq> [] \<and> name = n @ ''.git'') \<Longrightarrow> stripGitSuffix name = name"
proof (rule ccontr)
  assume no: "\<not> (\<exists>n. n \<noteq> [] \<and> name = n @ ''.git'')" and ne: "stripGitSuffix name \<noteq> name"
  from ne have l: "4 < length name" and d: "drop (length name - 4) name = ''.git''"
    by (auto simp: stripGitSuffix_def split: if_splits)
  have "name = take (length name - 4) name @ drop (length name - 4) name" by simp
  with d have "name = take (length name - 4) name @ ''.git''" by simp
  moreover from l have "take (length name - 4) name \<noteq> []" by auto
  ultimately show False using no by blast
qed

lemma drop_Cons_end:
  "k \<le> length cs \<Longrightarrow> drop (length (c # cs) - k) (c # cs) = drop (length cs - k) cs"
  by (simp add: Suc_diff_le)

lemma take_Cons_end:
  "k \<le> length cs \<Longrightarrow> take (length (c # cs) - k) (c # cs) = c # take (length cs - k) cs"
  by (simp add: Suc_diff_le)

lemma stripGitSuffix_Cons:
  assumes "cs \<noteq> []" "cs \<noteq> ''.git''"
  shows "stripGitSuffix (c # cs) = c # stripGitSuffix cs"
proof (cases "length cs < 4")
  case True
  then show ?thesis by (simp add: stripGitSuffix_def)
next
  case False
  then have k: "4 \<le> length cs" by simp
  show ?thesis
  proof (cases "length cs = 4")
    case True
    with assms(2) have "drop (length (c # cs) - 4) (c # cs) \<noteq> ''.git''"
      using drop_Cons_end [OF k, of c] by simp
    with True show ?thesis by (simp add: stripGitSuffix_def)
  next
    case False
    with k have "4 < length cs" "4 < length (c # cs)" by simp_all
    then show ?thesis
      unfolding stripGitSuffix_def drop_Cons_end [OF k] take_Cons_end [OF k] by simp
  qed
qed

lemma lazySegment_slash: "CHR ''/'' \<in> set t \<Longrightarrow> lazySegment acc t = None"
proof (induction t arbitrary: acc)
  case Nil
  then show ?case by simp
next
  case (Cons c cs)
  show ?case
  proof (cases "c = CHR ''/''")
    case True
    then show ?thesis by simp
  next
    case False
    with Cons.prems have in_cs: "CHR ''/'' \<in> set cs" by simp
    then have "\<not> gitSuffixAtEnd cs" by (auto simp: gitSuffixAtEnd_def)
    with False Cons.IH [OF in_cs] show ?thesis by simp
  qed
qed

lemma lazySegment_segment:
  "CHR ''/'' \<notin> set s \<Longrightarrow> s \<noteq> [] \<Longrightarrow> lazySegment acc s = Some (acc @ stripGitSuffix s)"
proof (induction s arbitrary: acc)
  case Nil
  then show ?case by simp
next
  case (Cons c cs)
  then have c: "c \<noteq> CHR ''/''" and cs: "CHR ''/'' \<notin> set cs" by auto
  show ?case
  proof (cases "gitSuffixAtEnd cs")
    case True
    then have "stripGitSuffix (c # cs) = [c]"
      by (auto simp: gitSuffixAtEnd_def stripGitSuffix_def)
    with True c show ?thesis by simp
  next
    case False
    then have ne: "cs \<noteq> []" "cs \<noteq> ''.git''" by (auto simp: gitSuffixAtEnd_def)
    from False c have "lazySegment acc (c # cs) = lazySegment (acc @ [c]) cs" by simp
    also have "\<dots> = Some ((acc @ [c]) @ stripGitSuffix cs)"
      using Cons.IH [OF cs ne(1)] .
    finally show ?thesis using stripGitSuffix_Cons [OF ne] by simp
  qed
qed

lemma repoNameMatch_last_segment:
  assumes "CHR ''/'' \<notin> set s" "s \<noteq> []"
  shows "repoNameMatch (pre @ CHR ''/'' # s) = Some (stripGitSuffix s)"
proof (induction pre)
  case Nil
  from lazySegment_segment [OF assms, of "[]"] show ?case by simp
next
  case (Cons p ps)
  have "matchAt (p # ps @ CHR ''/'' # s) = None"
    by (simp add: lazySegment_slash)
  with Cons show ?case by simp
qed

lemma repoNameMatch_no_slash: "CHR ''/'' \<notin> set url \<Longrightarrow> repoNameMatch url = None"
  by (induction url) auto

lemma stripGitSuffix_nonempty: "s \<noteq> [] \<Longrightarrow> stripGitSuffix s \<noteq> []"
  by (auto simp: stripGitSuffix_def)

lemma resolveRepoName_last_segment:
  assumes "CHR ''/'' \<notin> set s" "s \<noteq> []"
  shows "resolveRepoName (pre @ CHR ''/'' # s) = Inr (stripGitSuffix s)"
  using assms by (simp add: resolveRepoName_def repoNameMatch_last_segment stripGitSuffix_nonempty)

subsection \<open>Effects of the steps\<close>

lemma request_eq:
  "request pf e w =
     (fst (perform pf e (outside w)),
      \<lparr>outside = snd (perform pf e (outside w)), issued = issued w @ [e]\<rparr>)"
  by (simp add: request_def split_beta)

lemma createWorktree_conflict:
  "existsSync pf (outside w) wt \<Longrightarrow> createWorktree pf bare wt b w = (Inl (pathExistsMessage wt), w)"
  by (simp add: createWorktree_def)

lemma pathExistsMessage_matches:
  "containsIgnoringCase (pathExistsMessage wt) ''already exists''"
proof -
  have "sublist ''already exists'' (''Worktree path '' @ wt @ '' '' @ ''already exists'' @ ''.'')"
    unfolding sublist_def by (metis append.assoc)
  then have "sublist ''already exists'' (pathExistsMessage wt)"
    by (simp add: pathExistsMessage_def)
  then show ?thesis unfolding containsIgnoringCase_def by blast
qed

lemma createWorktree_issued:
  "\<exists>rest. issued (snd (createWorktree pf bare wt b w)) = issued w @ rest
       \<and> set rest \<subseteq> {worktreeAdd bare wt b, worktreeAddNewBranch bare wt b}"
  by (auto simp: createWorktree_def request_eq split: option.splits)

lemma ensureBareRepository_eq:
  "ensureBareRepository pf url bp w =
     (let cmd = (if existsSync pf (outside w) bp then GitFetch bp ''origin''
                 else GitClone url bp [''--bare'', ''--progress''])
      in ((case fst (perform pf cmd (outside w)) of None \<Rightarrow> Inr () | Some err \<Rightarrow> Inl err),
          \<lparr>outside = snd (perform pf cmd (outside w)), issued = issued w @ [cmd]\<rparr>))"
  by (auto simp: ensureBareRepository_def request_eq Let_def split: option.splits)

lemma isProvisioning_simps [simp]:
  "isProvisioning (GitFetch d r)" "isProvisioning (GitClone u d os)"
  "\<not> isProvisioning (EnsureDir p)" "\<not> isProvisioning (GitRaw d args)"
  by (simp_all add: isProvisioning_def)

lemma filter_worktree_commands:
  "set rest \<subseteq> {worktreeAdd bare wt b, worktreeAddNewBranch bare wt b} \<Longrightarrow> filter isProvisioning rest = []"
  by (auto simp: filter_empty_conv worktreeAdd_def worktreeAddNewBranch_def)

subsection \<open>Running the model on the simulated platform\<close>

lemma simPlatform_simps:
  "perform simPlatform = simPerform"
  "existsSync simPlatform s p = (p \<in> set (files s))"
  "path_join simPlatform a b = a @ ''/'' @ b"
  "path_resolve simPlatform d = d"
  "process_cwd simPlatform = ''/work''"
  by (simp_all add: simPlatform_def)

lemma resolveInputs_example:
  "resolveInputs ''/work'' (Some ''https://host/org/Hello-World.git'') (Some ''main'') ''/t''
     = Inr (''https://host/org/Hello-World.git'', ''main'', ''/t'')"
  by (simp add: resolveInputs_def trim_def isWhiteSpace_def)

lemma resolveRepoName_example:
  "resolveRepoName ''https://host/org/Hello-World.git'' = Inr ''Hello-World''"
  by (simp add: resolveRepoName_def gitSuffixAtEnd_def)

lemma planLayout_example:
  "planLayout simPlatform ''/t'' ''Hello-World'' b =
     \<lparr>repoDir = ''/t/Hello-World'', bareRepoPath = ''/t/Hello-World/.bare'',
      worktreePath = ''/t/Hello-World/'' @ b\<rparr>"
  by (simp add: planLayout_def simPlatform_simps)

subsection \<open>Path conflicts\<close>

text \<open>
  C3. When the worktree path exists, \<open>createWorktree\<close> fails with the path-conflict
  message and leaves the world as it found it: no git command is issued for the branch.
  The message matches \<open>/already exists/i\<close>. Hence a run whose provisioning succeeded and
  which then finds the worktree path on disk (as the second of two runs with the same
  url, branch and dir does) ends with that message as its failure, in the world the
  provisioning left, so that nothing was done to the existing worktree.
\<close>

theorem path_conflict:
  "(existsSync pf (outside w) wt \<longrightarrow>
      createWorktree pf bare wt b w = (Inl (pathExistsMessage wt), w))
   \<and> containsIgnoringCase (pathExistsMessage wt) ''already exists''
   \<and> (resolveInputs (process_cwd pf) urlArg branchArg dirOption = Inr (url, branch, dir)
        \<and> resolveRepoName url = Inr repoName
        \<and> l = planLayout pf dir repoName branch
        \<and> request pf (EnsureDir (repoDir l)) w = (None, w1)
        \<and> ensureBareRepository pf url (bareRepoPath l) w1 = (Inr (), w2)
        \<and> existsSync pf (outside w2) (worktreePath l)
      \<longrightarrow> action pf urlArg branchArg dirOption w = (failed (pathExistsMessage (worktreePath l)), w2))"
  by (auto simp: createWorktree_conflict pathExistsMessage_matches action_def Let_def)

theorem path_conflict_witness:
  "action simPlatform (Some ''https://host/org/Hello-World.git'') (Some ''main'') ''/t''
      (simWorld [] [''main''])
    = (succeeded,
       \<lparr>outside = \<lparr>files = [''/t/Hello-World/main'', ''/t/Hello-World/.bare'', ''/t/Hello-World''],
                    branches = [''main'']\<rparr>,
        issued = [EnsureDir ''/t/Hello-World'',
                  GitClone ''https://host/org/Hello-World.git'' ''/t/Hello-World/.bare''
                    [''--bare'', ''--progress''],
                  worktreeAdd ''/t/Hello-World/.bare'' ''/t/Hello-World/main'' ''main'']\<rparr>)
   \<and> action simPlatform (Some ''https://host/org/Hello-World.git'') (Some ''main'') ''/t''
      (simWorld [''/t/Hello-World/main'', ''/t/Hello-World/.bare'', ''/t/Hello-World''] [''main''])
    = (failed ''Worktree path /t/Hello-World/main already exists.'',
       \<lparr>outside = \<lparr>files = [''/t/Hello-World'', ''/t/Hello-World/main'', ''/t/Hello-World/.bare'',
                             ''/t/Hello-World''],
                    branches = [''main'']\<rparr>,
        issued = [EnsureDir ''/t/Hello-World'', GitFetch ''/t/Hello-World/.bare'' ''origin'']\<rparr>)"
proof -
  let ?url = "''https://host/org/Hello-World.git''"
  let ?l = "planLayout simPlatform ''/t'' ''Hello-World'' ''main''"
  let ?s = "\<lparr>files = [''/t/Hello-World/main'', ''/t/Hello-World/.bare'', ''/t/Hello-World''],
             branches = [''main'']\<rparr>"
  let ?s' = "\<lparr>files = [''/t/Hello-World'', ''/t/Hello-World/main'', ''/t/Hello-World/.bare'',
                        ''/t/Hello-World''],
             branches = [''main'']\<rparr>"
  let ?w = "simWorld [''/t/Hello-World/main'', ''/t/Hello-World/.bare'', ''/t/Hello-World''] [''main'']"
  let ?w1 = "\<lparr>outside = ?s', issued = [EnsureDir ''/t/Hello-World'']\<rparr>"
  let ?w2 = "\<lparr>outside = ?s', issued = [EnsureDir ''/t/Hello-World'', GitFetch ''/t/Hello-World/.bare'' ''origin'']\<rparr>"
  have first: "action simPlatform (Some ?url) (Some ''main'') ''/t'' (simWorld [] [''main''])
    = (succeeded,
       \<lparr>outside = ?s,
        issued = [EnsureDir ''/t/Hello-World'',
                  GitClone ?url ''/t/Hello-World/.bare'' [''--bare'', ''--progress''],
                  worktreeAdd ''/t/Hello-World/.bare'' ''/t/Hello-World/main'' ''main'']\<rparr>)"
    by (simp add: action_def simPlatform_simps resolveInputs_example resolveRepoName_example
          planLayout_example request_eq ensureBareRepository_eq createWorktree_def simWorld_def
          worktreeAdd_def Let_def)
  have h1: "resolveInputs (process_cwd simPlatform) (Some ?url) (Some ''main'') ''/t''
              = Inr (?url, ''main'', ''/t'')"
    by (simp add: simPlatform_simps resolveInputs_example)
  have h4: "request simPlatform (EnsureDir (repoDir ?l)) ?w = (None, ?w1)"
    by (simp add: planLayout_example request_eq simPlatform_simps simWorld_def)
  have h5: "ensureBareRepository simPlatform ?url (bareRepoPath ?l) ?w1 = (Inr (), ?w2)"
    by (simp add: planLayout_example ensureBareRepository_eq simPlatform_simps Let_def)
  have h6: "existsSync simPlatform (outside ?w2) (worktreePath ?l)"
    by (simp add: planLayout_example simPlatform_simps)
  have m: "pathExistsMessage (worktreePath ?l) = ''Worktree path /t/Hello-World/main already exists.''"
    by (simp add: planLayout_example pathExistsMessage_def)
  from path_conflict [of simPlatform ?w "''/t/Hello-World/main''" "''/t/Hello-World/.bare''" "''main''"
      "Some ?url" "Some ''main''" "''/t''" ?url "''main''" "''/t''" "''Hello-World''" ?l ?w1 ?w2]
    h1 resolveRepoName_example h4 h5 h6
  have "action simPlatform (Some ?url) (Some ''main'') ''/t'' ?w
          = (failed (pathExistsMessage (worktreePath ?l)), ?w2)"
    by blast
  with m first show ?thesis by simp
qed


subsection \<open>The Repository Provisioner\<close>

text \<open>
  C4. In a run with valid inputs in which \<open>ensureDir\<close> of the repository directory
  succeeded, the effects requested start with that \<open>ensureDir\<close> and one command of
  the provisioner: a fetch of \<open>origin\<close> inside the bare repository if its path exists,
  a bare clone of the url into that path otherwise. Whatever the branch, this is the
  only fetch or clone of the run. If the command fails, the run fails with the message
  of that error, and the world is the one the command left, with no further effect
  requested.
\<close>

theorem provisioner_once:
  assumes inputs: "resolveInputs (process_cwd pf) urlArg branchArg dirOption = Inr (url, branch, dir)"
    and name: "resolveRepoName url = Inr repoName"
    and l: "l = planLayout pf dir repoName branch"
    and ensured: "perform pf (EnsureDir (repoDir l)) (outside w) = (None, s1)"
    and cmd: "cmd = (if existsSync pf s1 (bareRepoPath l) then GitFetch (bareRepoPath l) ''origin''
                     else GitClone url (bareRepoPath l) [''--bare'', ''--progress''])"
    and performed: "perform pf cmd s1 = (res, s2)"
    and run: "action pf urlArg branchArg dirOption w = (out, w')"
  shows "take 2 (drop (length (issued w)) (issued w')) = [EnsureDir (repoDir l), cmd]
       \<and> filter isProvisioning (drop (length (issued w)) (issued w')) = [cmd]
       \<and> (\<forall>err. res = Some err \<longrightarrow>
             out = failed err
             \<and> w' = \<lparr>outside = s2, issued = issued w @ [EnsureDir (repoDir l), cmd]\<rparr>)"
proof -
  let ?w1 = "\<lparr>outside = s1, issued = issued w @ [EnsureDir (repoDir l)]\<rparr>"
  let ?w2 = "\<lparr>outside = s2, issued = issued w @ [EnsureDir (repoDir l), cmd]\<rparr>"
  have r1: "request pf (EnsureDir (repoDir l)) w = (None, ?w1)"
    using ensured by (simp add: request_eq)
  have r2: "ensureBareRepository pf url (bareRepoPath l) ?w1
            = ((case res of None \<Rightarrow> Inr () | Some err \<Rightarrow> Inl err), ?w2)"
    using performed cmd by (simp add: ensureBareRepository_eq Let_def)
  have p: "isProvisioning cmd" using cmd by simp
  show ?thesis
  proof (cases res)
    case (Some err)
    with inputs name l r1 r2 run have "out = failed err" "w' = ?w2"
      by (auto simp: action_def Let_def)
    with Some p show ?thesis by simp
  next
    case None
    obtain rest where rest: "issued (snd (createWorktree pf (bareRepoPath l) (worktreePath l) branch ?w2))
          = issued ?w2 @ rest"
      "set rest \<subseteq> {worktreeAdd (bareRepoPath l) (worktreePath l) branch,
                     worktreeAddNewBranch (bareRepoPath l) (worktreePath l) branch}"
      using createWorktree_issued by blast
    from None inputs name l r1 r2 run
    have "w' = snd (createWorktree pf (bareRepoPath l) (worktreePath l) branch ?w2)"
      by (auto simp: action_def Let_def split: prod.splits sum.splits)
    with rest have "issued w' = issued w @ [EnsureDir (repoDir l), cmd] @ rest" by simp
    with None p filter_worktree_commands [OF rest(2)] show ?thesis by simp
  qed
qed

theorem provisioner_once_witness:
  "filter isProvisioning
     (issued (snd (action simPlatform (Some ''https://host/org/Hello-World.git'') (Some ''dev'') ''/t''
        (simWorld [''/t/Hello-World/.bare'', ''/t/Hello-World''] [''main'']))))
     = [GitFetch ''/t/Hello-World/.bare'' ''origin'']
   \<and> take 2 (issued (snd (action simPlatform (Some ''https://host/org/Hello-World.git'') (Some ''dev'') ''/t''
        (simWorld [''/t/Hello-World/.bare'', ''/t/Hello-World''] [''main'']))))
     = [EnsureDir ''/t/Hello-World'', GitFetch ''/t/Hello-World/.bare'' ''origin'']"
proof -
  let ?url = "''https://host/org/Hello-World.git''"
  let ?l = "planLayout simPlatform ''/t'' ''Hello-World'' ''dev''"
  let ?w = "simWorld [''/t/Hello-World/.bare'', ''/t/Hello-World''] [''main'']"
  let ?s1 = "\<lparr>files = [''/t/Hello-World'', ''/t/Hello-World/.bare'', ''/t/Hello-World''],
              branches = [''main'']\<rparr>"
  let ?cmd = "GitFetch ''/t/Hello-World/.bare'' ''origin''"
  have h1: "resolveInputs (process_cwd simPlatform) (Some ?url) (Some ''dev'') ''/t''
              = Inr (?url, ''dev'', ''/t'')"
    by (simp add: simPlatform_simps resolveInputs_def trim_def isWhiteSpace_def)
  have h3: "?l = planLayout simPlatform ''/t'' ''Hello-World'' ''dev''" by simp
  have h4: "perform simPlatform (EnsureDir (repoDir ?l)) (outside ?w) = (None, ?s1)"
    by (simp add: planLayout_example simPlatform_simps simWorld_def)
  have h5: "?cmd = (if existsSync simPlatform ?s1 (bareRepoPath ?l)
                    then GitFetch (bareRepoPath ?l) ''origin''
                    else GitClone ?url (bareRepoPath ?l) [''--bare'', ''--progress''])"
    by (simp add: planLayout_example simPlatform_simps)
  have h6: "perform simPlatform ?cmd ?s1 = (None, ?s1)"
    by (simp add: simPlatform_simps)
  have h7: "action simPlatform (Some ?url) (Some ''dev'') ''/t'' ?w
      = (fst (action simPlatform (Some ?url) (Some ''dev'') ''/t'' ?w),
         snd (action simPlatform (Some ?url) (Some ''dev'') ''/t'' ?w))"
    by simp
  have e: "issued ?w = []" by (simp add: simWorld_def)
  from provisioner_once [OF h1 resolveRepoName_example h3 h4 h5 h6 h7] e
  show ?thesis by (simp add: planLayout_example)
qed


subsection \<open>Repository name and layout\<close>

text \<open>
  C5. For a url whose last path segment is a non-empty \<open>name\<close> followed by \<open>.git\<close>,
  or a non-empty \<open>name\<close> that does not itself end in \<open>.git\<close>, \<open>resolveRepoName\<close>
  returns \<open>name\<close>; for a url without a slash it fails with the message that starts
  with \<open>Invalid Git URL\<close>. The layout is \<open>repoDir = join(baseDir, repoName)\<close>,
  \<open>bareRepoPath = join(repoDir, ".bare")\<close>, \<open>worktreePath = join(repoDir, branch)\<close>, a
  function of the inputs alone, and every effect a run requests is on these paths.
\<close>

theorem repoName_and_layout:
  "(name \<noteq> [] \<and> CHR ''/'' \<notin> set name \<longrightarrow>
      resolveRepoName (pre @ ''/'' @ name @ ''.git'') = Inr name)
   \<and> (name \<noteq> [] \<and> CHR ''/'' \<notin> set name \<and> \<not> (\<exists>n. n \<noteq> [] \<and> name = n @ ''.git'') \<longrightarrow>
      resolveRepoName (pre @ ''/'' @ name) = Inr name)
   \<and> (CHR ''/'' \<notin> set url \<longrightarrow>
      resolveRepoName url = Inl invalidUrlMessage \<and> prefix ''Invalid Git URL'' invalidUrlMessage)
   \<and> planLayout pf dir repoName branch =
        \<lparr>repoDir = path_join pf (path_resolve pf dir) repoName,
         bareRepoPath = path_join pf (path_join pf (path_resolve pf dir) repoName) ''.bare'',
         worktreePath = path_join pf (path_join pf (path_resolve pf dir) repoName) branch\<rparr>
   \<and> (resolveInputs (process_cwd pf) urlArg branchArg dirOption = Inr (u, b, d)
        \<and> resolveRepoName u = Inr n \<longrightarrow>
      set (drop (length (issued w)) (issued (snd (action pf urlArg branchArg dirOption w))))
        \<subseteq> {EnsureDir (repoDir (planLayout pf d n b)),
            GitFetch (bareRepoPath (planLayout pf d n b)) ''origin'',
            GitClone u (bareRepoPath (planLayout pf d n b)) [''--bare'', ''--progress''],
            worktreeAdd (bareRepoPath (planLayout pf d n b)) (worktreePath (planLayout pf d n b)) b,
            worktreeAddNewBranch (bareRepoPath (planLayout pf d n b)) (worktreePath (planLayout pf d n b)) b})"
proof -
  have 1: "name \<noteq> [] \<and> CHR ''/'' \<notin> set name \<longrightarrow>
      resolveRepoName (pre @ ''/'' @ name @ ''.git'') = Inr name"
    using resolveRepoName_last_segment [of "name @ ''.git''" pre]
    by (simp add: stripGitSuffix_append)
  have 2: "name \<noteq> [] \<and> CHR ''/'' \<notin> set name \<and> \<not> (\<exists>n. n \<noteq> [] \<and> name = n @ ''.git'') \<longrightarrow>
      resolveRepoName (pre @ ''/'' @ name) = Inr name"
    using resolveRepoName_last_segment [of name pre] stripGitSuffix_same [of name]
    by simp
  have 3: "CHR ''/'' \<notin> set url \<longrightarrow>
      resolveRepoName url = Inl invalidUrlMessage \<and> prefix ''Invalid Git URL'' invalidUrlMessage"
    by (simp add: resolveRepoName_def repoNameMatch_no_slash invalidUrlMessage_def)
  have 4: "planLayout pf dir repoName branch =
        \<lparr>repoDir = path_join pf (path_resolve pf dir) repoName,
         bareRepoPath = path_join pf (path_join pf (path_resolve pf dir) repoName) ''.bare'',
         worktreePath = path_join pf (path_join pf (path_resolve pf dir) repoName) branch\<rparr>"
    by (simp add: planLayout_def Let_def)
  have 5: "resolveInputs (process_cwd pf) urlArg branchArg dirOption = Inr (u, b, d)
        \<and> resolveRepoName u = Inr n \<longrightarrow>
      set (drop (length (issued w)) (issued (snd (action pf urlArg branchArg dirOption w))))
        \<subseteq> {EnsureDir (repoDir (planLayout pf d n b)),
            GitFetch (bareRepoPath (planLayout pf d n b)) ''origin'',
            GitClone u (bareRepoPath (planLayout pf d n b)) [''--bare'', ''--progress''],
            worktreeAdd (bareRepoPath (planLayout pf d n b)) (worktreePath (planLayout pf d n b)) b,
            worktreeAddNewBranch (bareRepoPath (planLayout pf d n b)) (worktreePath (planLayout pf d n b)) b}"
  proof
    assume a: "resolveInputs (process_cwd pf) urlArg branchArg dirOption = Inr (u, b, d)
        \<and> resolveRepoName u = Inr n"
    let ?l = "planLayout pf d n b"
    let ?w1 = "snd (request pf (EnsureDir (repoDir ?l)) w)"
    let ?w2 = "snd (ensureBareRepository pf u (bareRepoPath ?l) ?w1)"
    let ?w3 = "snd (createWorktree pf (bareRepoPath ?l) (worktreePath ?l) b ?w2)"
    let ?S = "{EnsureDir (repoDir ?l), GitFetch (bareRepoPath ?l) ''origin'',
            GitClone u (bareRepoPath ?l) [''--bare'', ''--progress''],
            worktreeAdd (bareRepoPath ?l) (worktreePath ?l) b,
            worktreeAddNewBranch (bareRepoPath ?l) (worktreePath ?l) b}"
    have i1: "issued ?w1 = issued w @ [EnsureDir (repoDir ?l)]"
      by (simp add: request_eq)
    obtain c where i2: "issued ?w2 = issued ?w1 @ [c]" "c \<in> ?S"
      by (simp add: ensureBareRepository_eq Let_def)
    obtain rest where i3: "issued ?w3 = issued ?w2 @ rest" "set rest \<subseteq> ?S"
      using createWorktree_issued [of pf "bareRepoPath ?l" "worktreePath ?l" b ?w2] by auto
    from a have "snd (action pf urlArg branchArg dirOption w) \<in> {?w1, ?w2, ?w3}"
      by (auto simp: action_def Let_def split: prod.splits sum.splits option.splits)
    then show "set (drop (length (issued w)) (issued (snd (action pf urlArg branchArg dirOption w)))) \<subseteq> ?S"
      using i1 i2 i3 by auto
  qed
  from 1 2 3 4 5 show ?thesis by blast
qed

theorem repoName_and_layout_witness:
  "resolveRepoName ''https://host/org/Hello-World.git'' = Inr ''Hello-World''
   \<and> resolveRepoName ''https://host/org/Hello-World'' = Inr ''Hello-World''
   \<and> resolveRepoName ''Hello-World.git'' = Inl invalidUrlMessage
   \<and> set (issued (snd (action simPlatform (Some ''https://host/org/Hello-World.git'') (Some ''main'') ''/t''
        (simWorld [] [''main'']))))
     \<subseteq> {EnsureDir ''/t/Hello-World'',
         GitFetch ''/t/Hello-World/.bare'' ''origin'',
         GitClone ''https://host/org/Hello-World.git'' ''/t/Hello-World/.bare'' [''--bare'', ''--progress''],
         worktreeAdd ''/t/Hello-World/.bare'' ''/t/Hello-World/main'' ''main'',
         worktreeAddNewBranch ''/t/Hello-World/.bare'' ''/t/Hello-World/main'' ''main''}"
proof -
  let ?url = "''https://host/org/Hello-World.git''"
  let ?w = "simWorld [] [''main'']"
  have n1: "''Hello-World'' \<noteq> [] \<and> CHR ''/'' \<notin> set ''Hello-World''" by simp
  have n2: "\<not> (\<exists>n. n \<noteq> [] \<and> ''Hello-World'' = n @ ''.git'')"
  proof
    assume "\<exists>n. n \<noteq> [] \<and> ''Hello-World'' = n @ ''.git''"
    then obtain n where "''Hello-World'' = n @ ''.git''" by blast
    then have "last ''Hello-World'' = last (n @ ''.git'')" by (rule arg_cong)
    then show False by simp
  qed
  have n3: "CHR ''/'' \<notin> set ''Hello-World.git''" by simp
  have h1: "resolveInputs (process_cwd simPlatform) (Some ?url) (Some ''main'') ''/t''
              = Inr (?url, ''main'', ''/t'')"
    by (simp add: simPlatform_simps resolveInputs_example)
  have e: "issued ?w = []" by (simp add: simWorld_def)
  note t = repoName_and_layout [of "''Hello-World''" "''https://host/org''" "''Hello-World.git''"
      simPlatform "''/t''" "''Hello-World''" "''main''" "Some ?url" "Some ''main''" "''/t''"
      ?url "''main''" "''/t''" "''Hello-World''" ?w]
  from t n1 have c1: "resolveRepoName (''https://host/org'' @ ''/'' @ ''Hello-World'' @ ''.git'') = Inr ''Hello-World''"
    by blast
  from t n1 n2 have c2: "resolveRepoName (''https://host/org'' @ ''/'' @ ''Hello-World'') = Inr ''Hello-World''"
    by blast
  from t n3 have c3: "resolveRepoName ''Hello-World.git'' = Inl invalidUrlMessage"
    by blast
  from t h1 resolveRepoName_example
  have c5: "set (drop (length (issued ?w)) (issued (snd (action simPlatform (Some ?url) (Some ''main'') ''/t'' ?w))))
        \<subseteq> {EnsureDir (repoDir (planLayout simPlatform ''/t'' ''Hello-World'' ''main'')),
            GitFetch (bareRepoPath (planLayout simPlatform ''/t'' ''Hello-World'' ''main'')) ''origin'',
            GitClone ?url (bareRepoPath (planLayout simPlatform ''/t'' ''Hello-World'' ''main'')) [''--bare'', ''--progress''],
            worktreeAdd (bareRepoPath (planLayout simPlatform ''/t'' ''Hello-World'' ''main''))
              (worktreePath (planLayout simPlatform ''/t'' ''Hello-World'' ''main'')) ''main'',
            worktreeAddNewBranch (bareRepoPath (planLayout simPlatform ''/t'' ''Hello-World'' ''main''))
              (worktreePath (planLayout simPlatform ''/t'' ''Hello-World'' ''main'')) ''main''}"
    by blast
  from c1 c2 c3 c5 e show ?thesis by (simp add: planLayout_example)
qed


subsection \<open>Validation comes first\<close>

text \<open>
  C8. When the url or the branch is missing or empty after trimming, or no repository
  name can be extracted from the url, the run fails with exit code 1 and leaves the
  world as it was: no directory is created and no git command is issued.
\<close>

theorem validation_first:
  assumes "urlArg = None \<or> branchArg = None
           \<or> (\<exists>u. urlArg = Some u \<and> (trim u = [] \<or> isl (resolveRepoName (trim u))))
           \<or> (\<exists>b. branchArg = Some b \<and> trim b = [])"
  shows "snd (action pf urlArg branchArg dirOption w) = w
       \<and> exitCode (fst (action pf urlArg branchArg dirOption w)) = 1
       \<and> failure (fst (action pf urlArg branchArg dirOption w)) \<in> {Some usageMessage, Some invalidUrlMessage}"
proof (cases "resolveInputs (process_cwd pf) urlArg branchArg dirOption")
  case (Inl err)
  then have "err = usageMessage"
    by (auto simp: resolveInputs_def Let_def split: option.splits if_splits)
  with Inl show ?thesis by (simp add: action_def failed_def)
next
  case (Inr t)
  then obtain url branch dir where t: "t = (url, branch, dir)" by (cases t) auto
  with Inr have u: "urlArg = Some url \<or> True" "url = trim (the urlArg)" "urlArg \<noteq> None" "branchArg \<noteq> None"
     "url \<noteq> []" "trim (the branchArg) \<noteq> []"
    by (auto simp: resolveInputs_def Let_def split: option.splits if_splits)
  with assms have "isl (resolveRepoName url)" by auto
  then obtain err where e: "resolveRepoName url = Inl err" by (cases "resolveRepoName url") auto
  then have "err = invalidUrlMessage"
    by (auto simp: resolveRepoName_def split: option.splits if_splits)
  with Inr t e show ?thesis by (simp add: action_def failed_def)
qed


theorem validation_first_witness:
  "snd (action simPlatform None None ''/t'' (simWorld [] [''main''])) = simWorld [] [''main'']
   \<and> exitCode (fst (action simPlatform None None ''/t'' (simWorld [] [''main'']))) = 1
   \<and> snd (action simPlatform (Some ''Hello-World.git'') (Some ''main'') ''/t'' (simWorld [] [''main'']))
       = simWorld [] [''main'']
   \<and> failure (fst (action simPlatform (Some ''Hello-World.git'') (Some ''main'') ''/t'' (simWorld [] [''main''])))
       \<in> {Some usageMessage, Some invalidUrlMessage}"
proof -
  have a: "None = None \<or> None = None
           \<or> (\<exists>u. None = Some u \<and> (trim u = [] \<or> isl (resolveRepoName (trim u))))
           \<or> (\<exists>b. None = Some b \<and> trim b = [])"
    by simp
  have "isl (resolveRepoName (trim ''Hello-World.git''))"
    by (simp add: trim_def isWhiteSpace_def resolveRepoName_def)
  then have b: "Some ''Hello-World.git'' = None \<or> Some ''main'' = None
           \<or> (\<exists>u. Some ''Hello-World.git'' = Some u \<and> (trim u = [] \<or> isl (resolveRepoName (trim u))))
           \<or> (\<exists>b. Some ''main'' = Some b \<and> trim b = [])"
    by simp
  from validation_first [OF a, of simPlatform "''/t''" "simWorld [] [''main'']"]
    validation_first [OF b, of simPlatform "''/t''" "simWorld [] [''main'']"]
  show ?thesis by simp
qed

section \<open>Properties of the full-screen form\<close>

subsection \<open>Trimming and the handlers\<close>

lemma dropWhile_hd: "dropWhile P xs \<noteq> [] \<Longrightarrow> \<not> P (hd (dropWhile P xs))"
  by (simp add: hd_dropWhile)

lemma last_dropWhile: "dropWhile P xs \<noteq> [] \<Longrightarrow> last (dropWhile P xs) = last xs"
  by (metis last_appendR takeWhile_dropWhile_id)

lemma dropWhile_rev_trimmed:
  assumes "b = dropWhile P (rev (dropWhile P s))"
  shows "dropWhile P (rev b) = rev b"
proof (cases "b = []")
  case True
  then show ?thesis by simp
next
  case False
  let ?a = "dropWhile P s"
  have a: "?a \<noteq> []"
  proof
    assume e: "?a = []"
    have "dropWhile P (rev []) = []" by simp
    with assms e False show False by (simp only:)
  qed
  from False assms have "last b = last (rev ?a)" by (metis last_dropWhile)
  also from a have "\<dots> = hd ?a" by (metis last_rev)
  finally have "hd (rev b) = hd ?a" using False by (metis hd_rev)
  moreover from a have "\<not> P (hd ?a)" by (rule dropWhile_hd)
  ultimately have "\<not> P (hd (rev b))" by simp
  with False show ?thesis by (cases "rev b") auto
qed

lemma trim_idem: "trim (trim s) = trim s"
proof -
  let ?b = "dropWhile isWhiteSpace (rev (dropWhile isWhiteSpace s))"
  have t: "trim s = rev ?b" by (simp add: trim_def)
  have "dropWhile isWhiteSpace (rev ?b) = rev ?b"
    by (rule dropWhile_rev_trimmed) (rule refl)
  then have "trim (rev ?b) = rev (dropWhile isWhiteSpace ?b)" by (simp only: trim_def rev_rev_ident)
  also have "\<dots> = rev ?b" by (simp only: dropWhile_idem)
  finally show ?thesis using t by simp
qed

lemma jsRemainder_focus [simp]:
  "jsRemainder (0 + focusablesLength) focusablesLength = 0"
  "jsRemainder (1 + focusablesLength) focusablesLength = 1"
  "jsRemainder (2 + focusablesLength) focusablesLength = 2"
  by (simp_all add: jsRemainder_def focusablesLength_def)

lemma focusAt_fields [simp]:
  "settled (focusAt i f) = settled f"
  "promise (focusAt i f) = promise f"
  "urlValue (focusAt i f) = urlValue f"
  "branchValue (focusAt i f) = branchValue f"
  "dirValue (focusAt i f) = dirValue f"
  "messageContent (focusAt i f) = messageContent f"
  "filter isSettlingCall (calls (focusAt i f)) = filter isSettlingCall (calls f)"
  by (simp_all add: focusAt_def Let_def isSettlingCall_def)

lemma setError_fields [simp]:
  "settled (setError c f) = settled f"
  "promise (setError c f) = promise f"
  "urlValue (setError c f) = urlValue f"
  "branchValue (setError c f) = branchValue f"
  "dirValue (setError c f) = dirValue f"
  "focusIndex (setError c f) = focusIndex f"
  "messageContent (setError c f) = ''{red-fg}'' @ c @ ''{/red-fg}''"
  "filter isSettlingCall (calls (setError c f)) = filter isSettlingCall (calls f)"
  by (simp_all add: setError_def isSettlingCall_def)

lemma focusAt_index [simp]:
  "focusIndex (focusAt 0 f) = 0" "focusIndex (focusAt 1 f) = 1" "focusIndex (focusAt 2 f) = 2"
  using jsRemainder_focus by (simp_all add: focusAt_def Let_def focusablesLength_def)

lemma cancel_open:
  "\<not> settled f \<Longrightarrow>
     cancel f = f\<lparr>settled := True,
                  promise := (if promise f = Pending then Rejected ''Cancelled by user.'' else promise f),
                  calls := calls f @ [Destroy, CallReject ''Cancelled by user.'']\<rparr>"
  by (simp add: cancel_def settle_def cleanup_def reject_def)

lemma cancel_settled: "settled f \<Longrightarrow> cancel f = f"
  by (simp add: cancel_def settle_def)

lemma submit_settled_fields:
  "settled f \<Longrightarrow> settled (submit f) \<and> promise (submit f) = promise f
     \<and> filter isSettlingCall (calls (submit f)) = filter isSettlingCall (calls f)"
  by (simp add: submit_def settle_def Let_def)

lemma submit_complete:
  "\<not> settled f \<Longrightarrow> trim (urlValue f) \<noteq> [] \<Longrightarrow> trim (branchValue f) \<noteq> [] \<Longrightarrow> trim (dirValue f) \<noteq> [] \<Longrightarrow>
     submit f = f\<lparr>settled := True,
                  promise := (if promise f = Pending
                              then Resolved (trim (urlValue f)) (trim (branchValue f)) (trim (dirValue f))
                              else promise f),
                  calls := calls f @ [Destroy,
                    CallResolve (trim (urlValue f)) (trim (branchValue f)) (trim (dirValue f))]\<rparr>"
  by (simp add: submit_def settle_def cleanup_def resolve_def Let_def)

lemma submit_incomplete:
  "trim (urlValue f) = [] \<or> trim (branchValue f) = [] \<or> trim (dirValue f) = [] \<Longrightarrow>
     settled (submit f) = settled f \<and> promise (submit f) = promise f
     \<and> filter isSettlingCall (calls (submit f)) = filter isSettlingCall (calls f)"
  by (auto simp: submit_def Let_def)



lemma consistent_initial: "consistent (collectInputsWithTui cwd iu ib idir)"
  by (simp add: consistent_def collectInputsWithTui_def)

lemma consistent_focusAt: "consistent f \<Longrightarrow> consistent (focusAt i f)"
  by (simp add: consistent_def)

lemma consistent_cancel: "consistent f \<Longrightarrow> consistent (cancel f)"
  by (cases "settled f")
    (auto simp: cancel_settled cancel_open consistent_def isSettlingCall_def split: settlement.splits)

lemma consistent_submit: "consistent f \<Longrightarrow> consistent (submit f)"
proof (cases "settled f")
  case True
  assume "consistent f"
  with submit_settled_fields [OF True] True show ?thesis by (simp add: consistent_def)
next
  case False
  assume c: "consistent f"
  show ?thesis
  proof (cases "trim (urlValue f) = [] \<or> trim (branchValue f) = [] \<or> trim (dirValue f) = []")
    case True
    from submit_incomplete [OF True] c show ?thesis by (simp add: consistent_def)
  next
    case complete: False
    with False c show ?thesis
      by (simp add: submit_complete consistent_def isSettlingCall_def trim_idem)
  qed
qed

lemma consistent_handle: "consistent f \<Longrightarrow> consistent (handle e f)"
  by (cases e) (simp_all add: consistent_focusAt consistent_cancel consistent_submit, simp_all add: consistent_def)

lemma consistent_handleAll: "consistent f \<Longrightarrow> consistent (handleAll es f)"
  by (induction es arbitrary: f) (simp_all add: consistent_handle)

lemma consistent_reachable: "consistent (handleAll es (collectInputsWithTui cwd iu ib idir))"
  by (rule consistent_handleAll [OF consistent_initial])



subsection \<open>Cancelling\<close>

text \<open>
  When the handler \<open>cancel\<close> runs on a form that is still open, it rejects the promise
  with the error \<open>Cancelled by user.\<close>, and destroys the screen before it calls
  \<open>reject\<close>. This is what the press of the Cancel button does, and what a cancelling
  key does once it reaches the handler of the screen.
\<close>

lemma cancel_handler_rejects:
  assumes "e \<in> {ScreenEscape, ScreenQ, ScreenCtrlC, PressCancel}"
    and "f = handleAll es (collectInputsWithTui cwd initialUrl initialBranch initialDir)"
    and "\<not> settled f"
  shows "promise (handle e f) = Rejected ''Cancelled by user.''
       \<and> calls (handle e f) = calls f @ [Destroy, CallReject ''Cancelled by user.'']
       \<and> settled (handle e f)"
proof -
  from assms(2) have "consistent f" by (simp add: consistent_reachable)
  with assms(3) have p: "promise f = Pending" by (simp add: consistent_def)
  from assms(1) have "handle e f = cancel f" by auto
  with assms(3) p show ?thesis by (simp add: cancel_open)
qed

lemma initial_form_fields:
  "promise (collectInputsWithTui cwd iu ib idir) = Pending"
  "\<not> settled (collectInputsWithTui cwd iu ib idir)"
  "focusIndex (collectInputsWithTui cwd iu ib idir) = 0"
  "urlValue (collectInputsWithTui cwd iu ib idir) = toInitialValue iu"
  "calls (collectInputsWithTui cwd iu ib idir) = [Focus 0, Render, Render]"
  by (simp_all add: collectInputsWithTui_def focusAt_def jsRemainder_def focusablesLength_def)

text \<open>
  C9. The keys that \<open>screen.key\<close> binds to \<open>cancel\<close> do not cancel the form as it
  opens. The url box has the focus and reads input, so the key goes to the box and the
  handler of the screen does not run: \<open>q\<close> is typed into the url, Ctrl-C changes
  nothing, Escape ends the reading of the box, and after each of them the promise is
  still pending and the screen is not destroyed. Only a second Escape, pressed when no
  text box reads input any more, runs \<open>cancel\<close>: the screen is destroyed and then the
  promise is rejected with \<open>Cancelled by user.\<close>
\<close>

theorem cancel_keys_go_to_text_box:
  "promise (shown (pressKey k (openTerminal cwd iu ib idir))) = Pending
   \<and> \<not> settled (shown (pressKey k (openTerminal cwd iu ib idir)))
   \<and> Destroy \<notin> set (calls (shown (pressKey k (openTerminal cwd iu ib idir))))
   \<and> urlValue (shown (pressKey LetterQ (openTerminal cwd iu ib idir))) = toInitialValue iu @ ''q''
   \<and> pressKey CtrlC (openTerminal cwd iu ib idir) = openTerminal cwd iu ib idir
   \<and> shown (pressKey Escape (openTerminal cwd iu ib idir)) = shown (openTerminal cwd iu ib idir)
   \<and> promise (shown (pressKey Escape (pressKey Escape (openTerminal cwd iu ib idir))))
       = Rejected ''Cancelled by user.''
   \<and> calls (shown (pressKey Escape (pressKey Escape (openTerminal cwd iu ib idir))))
       = [Focus 0, Render, Render, Destroy, CallReject ''Cancelled by user.'']"
proof -
  let ?t = "openTerminal cwd iu ib idir"
  have r: "reading ?t" and s: "shown ?t = collectInputsWithTui cwd iu ib idir"
    by (simp_all add: openTerminal_def)
  have 1: "promise (shown (pressKey k ?t)) = Pending
      \<and> \<not> settled (shown (pressKey k ?t))
      \<and> Destroy \<notin> set (calls (shown (pressKey k ?t)))"
    using r s by (cases k) (simp_all add: pressKey_def typeCharacter_def initial_form_fields)
  have 2: "urlValue (shown (pressKey LetterQ ?t)) = toInitialValue iu @ ''q''"
    using r s by (simp add: pressKey_def typeCharacter_def initial_form_fields)
  have 3: "pressKey CtrlC ?t = ?t"
    using r by (simp add: pressKey_def)
  have 4: "pressKey Escape ?t = ?t\<lparr>reading := False\<rparr>"
    using r by (simp add: pressKey_def)
  then have 5: "shown (pressKey Escape ?t) = shown ?t" by simp
  have "pressKey Escape (?t\<lparr>reading := False\<rparr>)
      = ?t\<lparr>reading := False, shown := cancel (shown ?t)\<rparr>"
    by (simp add: pressKey_def screenHandler_def)
  with 4 s have "shown (pressKey Escape (pressKey Escape ?t))
      = cancel (collectInputsWithTui cwd iu ib idir)"
    by simp
  then have 6: "promise (shown (pressKey Escape (pressKey Escape ?t))) = Rejected ''Cancelled by user.''
      \<and> calls (shown (pressKey Escape (pressKey Escape ?t)))
          = [Focus 0, Render, Render, Destroy, CallReject ''Cancelled by user.'']"
    by (simp add: cancel_open initial_form_fields)
  from 1 2 3 5 6 show ?thesis by blast
qed


subsection \<open>Settling at most once\<close>




section \<open>Where the program differs from its tests and its README\<close>

text \<open>
  The test suite and the README describe a program that splits the branch input into
  a list of branches and that reports missing arguments in a non-interactive run with
  a message of its own. The program evaluated here does neither.
\<close>

lemma action_eq:
  "resolveInputs (process_cwd pf) urlArg branchArg dirOption = Inr (url, branch, dir) \<Longrightarrow>
   resolveRepoName url = Inr repoName \<Longrightarrow>
   action pf urlArg branchArg dirOption w =
     (let l = planLayout pf dir repoName branch
      in case request pf (EnsureDir (repoDir l)) w of
           (Some err, w1) \<Rightarrow> (failed err, w1)
         | (None, w1) \<Rightarrow>
             (case ensureBareRepository pf url (bareRepoPath l) w1 of
                (Inl err, w2) \<Rightarrow> (failed err, w2)
              | (Inr _, w2) \<Rightarrow>
                  (case createWorktree pf (bareRepoPath l) (worktreePath l) branch w2 of
                     (Inl err, w3) \<Rightarrow> (failed err, w3)
                   | (Inr _, w3) \<Rightarrow> (succeeded, w3))))"
  by (simp add: action_def)

lemma planLayout_sim:
  "planLayout simPlatform dir repoName branch =
     \<lparr>repoDir = dir @ ''/'' @ repoName, bareRepoPath = (dir @ ''/'' @ repoName) @ ''/.bare'',
      worktreePath = (dir @ ''/'' @ repoName) @ ''/'' @ branch\<rparr>"
  by (simp add: planLayout_def simPlatform_simps)

lemma resolveRepoName_repo: "resolveRepoName ''https://host/org/repo.git'' = Inr ''repo''"
  by (simp add: resolveRepoName_def gitSuffixAtEnd_def)

lemma isMissingBranchError_sim: "isMissingBranchError (''fatal: invalid reference: '' @ b)"
proof -
  have "sublist ''invalid reference'' (toLowerCase ''fatal: '' @ ''invalid reference'' @ toLowerCase ('': '' @ b))"
    by (rule sublist_appendI)
  also have "toLowerCase ''fatal: '' @ ''invalid reference'' @ toLowerCase ('': '' @ b)
      = toLowerCase (''fatal: invalid reference: '' @ b)"
    by (simp add: toLowerCase_def toLowerChar_def)
  finally show ?thesis
    by (simp add: isMissingBranchError_def MISSING_BRANCH_PATTERNS_def str_includes_sublist Let_def)
qed

text \<open>
  C2. The branch input is not split. \<open>resolveInputs\<close> trims the branch argument and
  returns it as one branch name, so \<open>dev, test dev release\<close> stays one name, and a
  run with the branch input \<open>dev test dev\<close> requests one worktree, for a branch of
  that name at a path of that name, and none for \<open>dev\<close> or \<open>test\<close>.
\<close>

theorem branch_argument_is_one_branch:
  "resolveInputs ''/work'' (Some ''https://host/org/repo.git'') (Some ''dev, test dev release'') ''/t''
     = Inr (''https://host/org/repo.git'', ''dev, test dev release'', ''/t'')
   \<and> action simPlatform (Some ''https://host/org/repo.git'') (Some ''dev test dev'') ''/t''
        (simWorld [] [''main'', ''dev'', ''test''])
     = (succeeded,
        \<lparr>outside = \<lparr>files = [''/t/repo/dev test dev'', ''/t/repo/.bare'', ''/t/repo''],
                     branches = [''dev test dev'', ''main'', ''dev'', ''test'']\<rparr>,
         issued = [EnsureDir ''/t/repo'',
                   GitClone ''https://host/org/repo.git'' ''/t/repo/.bare'' [''--bare'', ''--progress''],
                   worktreeAdd ''/t/repo/.bare'' ''/t/repo/dev test dev'' ''dev test dev'',
                   worktreeAddNewBranch ''/t/repo/.bare'' ''/t/repo/dev test dev'' ''dev test dev'']\<rparr>)"
proof -
  have i: "resolveInputs (process_cwd simPlatform) (Some ''https://host/org/repo.git'') (Some ''dev test dev'') ''/t''
     = Inr (''https://host/org/repo.git'', ''dev test dev'', ''/t'')"
    by (simp add: resolveInputs_def trim_def isWhiteSpace_def simPlatform_simps)
  have m: "isMissingBranchError ''fatal: invalid reference: dev test dev''"
    using isMissingBranchError_sim [of "''dev test dev''"] by simp
  have "action simPlatform (Some ''https://host/org/repo.git'') (Some ''dev test dev'') ''/t''
        (simWorld [] [''main'', ''dev'', ''test''])
     = (succeeded,
        \<lparr>outside = \<lparr>files = [''/t/repo/dev test dev'', ''/t/repo/.bare'', ''/t/repo''],
                     branches = [''dev test dev'', ''main'', ''dev'', ''test'']\<rparr>,
         issued = [EnsureDir ''/t/repo'',
                   GitClone ''https://host/org/repo.git'' ''/t/repo/.bare'' [''--bare'', ''--progress''],
                   worktreeAdd ''/t/repo/.bare'' ''/t/repo/dev test dev'' ''dev test dev'',
                   worktreeAddNewBranch ''/t/repo/.bare'' ''/t/repo/dev test dev'' ''dev test dev'']\<rparr>)"
    unfolding action_eq [OF i resolveRepoName_repo]
    by (simp add: planLayout_sim request_eq ensureBareRepository_eq createWorktree_def simWorld_def
          simPlatform_simps worktreeAdd_def worktreeAddNewBranch_def m Let_def)
  moreover have "resolveInputs ''/work'' (Some ''https://host/org/repo.git'') (Some ''dev, test dev release'') ''/t''
     = Inr (''https://host/org/repo.git'', ''dev, test dev release'', ''/t'')"
    by (simp add: resolveInputs_def trim_def isWhiteSpace_def)
  ultimately show ?thesis by simp
qed

lemma trim_Nil: "trim [] = []"
  by (simp add: trim_def)

lemma other_messages:
  "\<not> containsIgnoringCase (missingRequiredArgument ''url'')
        ''Missing required arguments in non-interactive mode''"
  "\<not> containsIgnoringCase (missingRequiredArgument ''branch'')
        ''Missing required arguments in non-interactive mode''"
  "\<not> containsIgnoringCase usageMessage ''Missing required arguments in non-interactive mode''"
  by (simp_all add: containsIgnoringCase_code missingRequiredArgument_def usageMessage_def
        toLowerCase_def toLowerChar_def)

text \<open>
  C6. A run without arguments, on whatever platform and whether interactive or not,
  does not reach the action: the command line library ends it with exit code 1 and its
  own error for the missing required argument \<open>url\<close>, or \<open>branch\<close> when only the url
  is given, and the world is unchanged. A run whose url argument is given but empty
  reaches \<open>resolveInputs\<close>, which throws the usage message. None of these messages
  is the one of the non-interactive mode.
\<close>

theorem run_without_arguments:
  "run pf None branchArg dirOption w = (failed (missingRequiredArgument ''url''), w)
   \<and> run pf (Some u) None dirOption w = (failed (missingRequiredArgument ''branch''), w)
   \<and> run pf (Some []) (Some b) dirOption w = (failed usageMessage, w)
   \<and> exitCode (failed (missingRequiredArgument ''url'')) = 1
   \<and> exitCode (failed (missingRequiredArgument ''branch'')) = 1
   \<and> exitCode (failed usageMessage) = 1
   \<and> \<not> containsIgnoringCase (missingRequiredArgument ''url'')
          ''Missing required arguments in non-interactive mode''
   \<and> \<not> containsIgnoringCase (missingRequiredArgument ''branch'')
          ''Missing required arguments in non-interactive mode''
   \<and> \<not> containsIgnoringCase usageMessage ''Missing required arguments in non-interactive mode''"
proof -
  have "resolveInputs cwd (Some []) (Some b) dir = Inl usageMessage" for cwd dir
    by (simp add: resolveInputs_def trim_Nil)
  then have "run pf (Some []) (Some b) dirOption w = (failed usageMessage, w)"
    by (simp add: run_def action_def)
  then show ?thesis
    by (simp add: run_def failed_def other_messages)
qed

text \<open>
  C7. A run creates the worktree of one branch. The list \<open>dev,test\<close> is one branch
  name: with the worktree path of \<open>dev\<close> on disk the run requests one worktree, for
  \<open>dev,test\<close>, and succeeds. With the branch \<open>dev\<close> alone the run fails on the
  path conflict and ends there; there is no further branch to attempt.
\<close>

theorem run_attempts_one_worktree:
  "action simPlatform (Some ''https://host/org/repo.git'') (Some ''dev,test'') ''/t''
        (simWorld [''/t/repo/dev'', ''/t/repo/.bare'', ''/t/repo''] [''main'', ''dev'', ''test''])
     = (succeeded,
        \<lparr>outside = \<lparr>files = [''/t/repo/dev,test'', ''/t/repo'', ''/t/repo/dev'', ''/t/repo/.bare'', ''/t/repo''],
                     branches = [''dev,test'', ''main'', ''dev'', ''test'']\<rparr>,
         issued = [EnsureDir ''/t/repo'',
                   GitFetch ''/t/repo/.bare'' ''origin'',
                   worktreeAdd ''/t/repo/.bare'' ''/t/repo/dev,test'' ''dev,test'',
                   worktreeAddNewBranch ''/t/repo/.bare'' ''/t/repo/dev,test'' ''dev,test'']\<rparr>)
   \<and> action simPlatform (Some ''https://host/org/repo.git'') (Some ''dev'') ''/t''
        (simWorld [''/t/repo/dev'', ''/t/repo/.bare'', ''/t/repo''] [''main'', ''dev'', ''test''])
     = (failed ''Worktree path /t/repo/dev already exists.'',
        \<lparr>outside = \<lparr>files = [''/t/repo'', ''/t/repo/dev'', ''/t/repo/.bare'', ''/t/repo''],
                     branches = [''main'', ''dev'', ''test'']\<rparr>,
         issued = [EnsureDir ''/t/repo'', GitFetch ''/t/repo/.bare'' ''origin'']\<rparr>)"
proof -
  have i1: "resolveInputs (process_cwd simPlatform) (Some ''https://host/org/repo.git'') (Some ''dev,test'') ''/t''
     = Inr (''https://host/org/repo.git'', ''dev,test'', ''/t'')"
    by (simp add: resolveInputs_def trim_def isWhiteSpace_def simPlatform_simps)
  have i2: "resolveInputs (process_cwd simPlatform) (Some ''https://host/org/repo.git'') (Some ''dev'') ''/t''
     = Inr (''https://host/org/repo.git'', ''dev'', ''/t'')"
    by (simp add: resolveInputs_def trim_def isWhiteSpace_def simPlatform_simps)
  have m: "isMissingBranchError ''fatal: invalid reference: dev,test''"
    using isMissingBranchError_sim [of "''dev,test''"] by simp
  show ?thesis
    unfolding action_eq [OF i1 resolveRepoName_repo] action_eq [OF i2 resolveRepoName_repo]
    by (simp add: planLayout_sim request_eq ensureBareRepository_eq createWorktree_def simWorld_def
          simPlatform_simps worktreeAdd_def worktreeAddNewBranch_def pathExistsMessage_def
          m Let_def)
qed

end
